theory Spec2Isabelle
  imports Complex_Main "HOL-Library.Log_Nat"
begin

section \<open>Data model\<close>

text \<open>
  The repository holds two scripts. The notifying script defines \<open>DiscordNotifier\<close> and
  \<open>TradingBot\<close> (\<open>check_market_hours\<close>, \<open>execute_trade\<close>, \<open>send_daily_summary\<close>,
  \<open>run\<close>); the plain script defines a \<open>TradingBot\<close> with \<open>check_market_hours\<close> and
  \<open>run\<close> only, which writes to the log instead of a webhook.

  Conventions of the embedding:
  \<^item> A finite Python \<open>float\<close> is the real number it denotes; infinite and NaN prices or
    equities are outside the model. The product \<open>price * qty\<close> of \<open>execute_trade\<close> is
    modelled with the conversion of the \<open>int\<close>, the rounding to a double and the
    overflow to infinity that Python performs, so a \<open>total\<close> is a \<open>pyfloat\<close>. The
    arithmetic of the daily summary is exact (its rounding is not modelled).
  \<^item> A field of the account snapshot is a \<open>pyval\<close>: a string, as the brokerage library
    delivers it, or a number, as a test double may. \<open>float(x)\<close> parses the first and
    returns the second; a comparison of a float with a string raises \<open>TypeError\<close>.
  \<^item> Python \<open>int\<close> is \<open>int\<close>; \<open>len\<close> and the generator sum are natural numbers.
  \<^item> The \<open>side\<close> argument and the \<open>action\<close> made from it are lists of Unicode code
    points (\<open>pystr\<close>), since \<open>str.upper\<close> works on code points. The other strings
    are passed along unchanged and are \<open>string\<close>.
  \<^item> An exception is a value of \<open>exn\<close>; a call that may raise returns \<open>exn + 'a\<close>.
  \<^item> What the program does not determine is given by a \<open>world\<close>: the replies of the
    brokerage, the webhook and the wall clock, as functions of the history of effects so
    far, and the uppercase table of the runtime's Unicode database.
  \<^item> Every effect, in program order, is recorded in a trace: each brokerage call, each
    webhook send (attempted, whether or not it raises), each log line and each append to
    \<open>daily_trades\<close>.
  \<^item> The time stamps taken from \<open>datetime.now()\<close> inside the message texts and the
    numeric formatting of the f-strings are not modelled: a message is its template
    together with the values it is filled with.
\<close>

type_synonym pystr = "nat list"

datatype exn =
    BrokerageError string
  | WebhookError string
  | ZeroDivisionError string
  | TypeError string
  | ValueError string
  | OverflowError string

fun str_exn :: "exn \<Rightarrow> string" where
  "str_exn (BrokerageError m) = m"
| "str_exn (WebhookError m) = m"
| "str_exn (ZeroDivisionError m) = m"
| "str_exn (TypeError m) = m"
| "str_exn (ValueError m) = m"
| "str_exn (OverflowError m) = m"

datatype pyfloat = Finite real | PosInf | NegInf

datatype pyval = PyFloat real | PyStr string

record trade =
  action :: pystr
  symbol :: string
  quantity :: int
  price :: real
  total :: pyfloat

record summary =
  date :: string
  total_trades :: nat
  pnl :: real
  pnl_percentage :: real
  balance :: real
  win_rate :: real

record account =
  equity :: pyval
  last_equity :: pyval

record order =
  order_symbol :: string
  order_qty :: int
  order_side :: pystr
  order_type :: string
  order_time_in_force :: string

datatype emoji = GreenCircle | RedCircle

datatype content =
    Text string
  | SessionStartedText real
  | CurrentBalanceText real
  | TradeAlertText emoji trade
  | DailySummaryText summary
  | ErrorAlertText string

datatype loglevel = INFO | ERROR

datatype event =
    GetClock
  | GetAccount
  | SubmitOrder order
  | WebhookSend content nat
  | ListAppend trade
  | Log loglevel content

record world =
  get_clock :: "event list \<Rightarrow> exn + bool"
  get_account :: "event list \<Rightarrow> exn + account"
  submit_order :: "event list \<Rightarrow> order \<Rightarrow> exn option"
  webhook_send :: "event list \<Rightarrow> content \<Rightarrow> nat \<Rightarrow> exn option"
  today :: "event list \<Rightarrow> string"
  unicode_upper :: "nat \<Rightarrow> nat list"

record bot =
  daily_trades :: "trade list"
  trace :: "event list"

text \<open>\<open>TradingBot.__init__\<close>: the trade list starts empty.\<close>

definition init :: "bot" where
  "init = \<lparr>daily_trades = [], trace = []\<rparr>"

definition emit :: "event \<Rightarrow> bot \<Rightarrow> bot" where
  "emit ev s = s\<lparr>trace := trace s @ [ev]\<rparr>"

section \<open>Python primitives\<close>

subsection \<open>Strings\<close>

text \<open>A string literal of the source, as code points.\<close>

definition ascii :: "string \<Rightarrow> pystr" where
  "ascii s = map of_char s"

text \<open>
  \<open>str.upper\<close> replaces each code point by its full uppercase mapping, which may be
  several code points. In the ASCII range only the letters a to z change; beyond it the
  mapping is the table \<open>U\<close> of the runtime.
\<close>

definition upper_code :: "(nat \<Rightarrow> nat list) \<Rightarrow> nat \<Rightarrow> nat list" where
  "upper_code U c =
     (if c < 128 then [if 97 \<le> c \<and> c \<le> 122 then c - 32 else c] else U c)"

definition upper :: "(nat \<Rightarrow> nat list) \<Rightarrow> pystr \<Rightarrow> pystr" where
  "upper U s = concat (map (upper_code U) s)"

subsection \<open>Doubles\<close>

text \<open>
  Rounding a real to the nearest double, ties to even: 53 significant bits, the quantum
  fixed at \<open>2^-1074\<close> below \<open>2^-1022\<close>, and infinity from \<open>2^1024\<close> on. The sign of
  a zero is not kept.
\<close>

definition pow2 :: "int \<Rightarrow> real" where
  "pow2 k = (if k \<ge> 0 then 2 ^ nat k else 1 / 2 ^ nat (- k))"

definition binary_exponent :: "real \<Rightarrow> int" where
  "binary_exponent a =
     (if a \<ge> 1 then int (floorlog 2 (nat \<lfloor>a\<rfloor>)) - 1
      else - int (floorlog 2 (nat \<lceil>1 / a\<rceil> - 1)))"

definition round_half_even :: "real \<Rightarrow> int" where
  "round_half_even x =
     (let f = \<lfloor>x\<rfloor>; d = x - of_int f
      in if d < 1 / 2 then f else if d > 1 / 2 then f + 1
         else if even f then f else f + 1)"

definition to_double :: "real \<Rightarrow> pyfloat" where
  "to_double x =
     (if x = 0 then Finite 0
      else
        (let a = \<bar>x\<bar>;
             e = max (binary_exponent a) (- 1022);
             q = pow2 (e - 52);
             r = of_int (round_half_even (a / q)) * q
         in if r \<ge> pow2 1024 then (if x > 0 then PosInf else NegInf)
            else Finite (if x > 0 then r else - r)))"

text \<open>
  \<open>float * int\<close>: the \<open>int\<close> is converted to a double first, which raises
  \<open>OverflowError\<close> when it does not fit; the product of the two doubles is rounded and
  may overflow to infinity without raising.
\<close>

definition int_to_float :: "int \<Rightarrow> exn + real" where
  "int_to_float n =
     (case to_double (of_int n) of
        Finite r \<Rightarrow> Inr r
      | _ \<Rightarrow> Inl (OverflowError ''int too large to convert to float''))"

definition float_mul_int :: "real \<Rightarrow> int \<Rightarrow> exn + pyfloat" where
  "float_mul_int x n =
     (case int_to_float n of
        Inl e \<Rightarrow> Inl e
      | Inr r \<Rightarrow> Inr (to_double (x * r)))"

text \<open>True division: Python raises \<open>ZeroDivisionError\<close> on a zero divisor.\<close>

definition float_div :: "real \<Rightarrow> real \<Rightarrow> exn + real" where
  "float_div a b =
     (if b = 0 then Inl (ZeroDivisionError ''float division by zero'') else Inr (a / b))"

definition int_true_div :: "nat \<Rightarrow> nat \<Rightarrow> exn + real" where
  "int_true_div a b =
     (if b = 0 then Inl (ZeroDivisionError ''division by zero'')
      else Inr (real a / real b))"

subsection \<open>Account fields\<close>

text \<open>
  \<open>float(s)\<close> of a string: surrounding whitespace, an optional sign, digits with an
  optional decimal point. Exponents, digit separators and the spellings of infinity and
  NaN, which Python also accepts, are not modelled; no account field of the theory uses
  them.
\<close>

definition quoted :: "string \<Rightarrow> string" where
  "quoted s = [CHR 0x27] @ s @ [CHR 0x27]"

definition is_space :: "char \<Rightarrow> bool" where
  "is_space c = (let n = (of_char c :: nat) in n = 32 \<or> (9 \<le> n \<and> n \<le> 13))"

definition is_digit :: "char \<Rightarrow> bool" where
  "is_digit c = (let n = (of_char c :: nat) in 48 \<le> n \<and> n \<le> 57)"

definition digits_val :: "string \<Rightarrow> nat" where
  "digits_val ds = foldl (\<lambda>a c. 10 * a + (of_char c - 48)) 0 ds"

definition strip :: "string \<Rightarrow> string" where
  "strip s = rev (dropWhile is_space (rev (dropWhile is_space s)))"

definition parse_unsigned :: "string \<Rightarrow> real option" where
  "parse_unsigned s =
     (let ip = takeWhile is_digit s
      in case dropWhile is_digit s of
           [] \<Rightarrow> if ip = [] then None else Some (real (digits_val ip))
         | c # fp \<Rightarrow>
             if c = CHR ''.'' \<and> list_all is_digit fp \<and> (ip \<noteq> [] \<or> fp \<noteq> [])
             then Some (real (digits_val ip) + real (digits_val fp) / 10 ^ length fp)
             else None)"

definition parse_float :: "string \<Rightarrow> real option" where
  "parse_float s =
     (case strip s of
        [] \<Rightarrow> None
      | c # r \<Rightarrow>
          if c = CHR ''-'' then map_option uminus (parse_unsigned r)
          else if c = CHR ''+'' then parse_unsigned r
          else parse_unsigned (c # r))"

definition py_float :: "pyval \<Rightarrow> exn + real" where
  "py_float v =
     (case v of
        PyFloat x \<Rightarrow> Inr x
      | PyStr s \<Rightarrow>
          (case parse_float s of
             Some x \<Rightarrow> Inr x
           | None \<Rightarrow>
               Inl (ValueError (''could not convert string to float: '' @ quoted s))))"

text \<open>\<open>x < v\<close> and \<open>x > v\<close> for a float \<open>x\<close> and an account field \<open>v\<close>.\<close>

definition py_lt :: "real \<Rightarrow> pyval \<Rightarrow> exn + bool" where
  "py_lt x v =
     (case v of
        PyFloat y \<Rightarrow> Inr (x < y)
      | PyStr s \<Rightarrow>
          Inl (TypeError (quoted ''<'' @ '' not supported between instances of ''
                 @ quoted ''float'' @ '' and '' @ quoted ''str'')))"

definition py_gt :: "real \<Rightarrow> pyval \<Rightarrow> exn + bool" where
  "py_gt x v =
     (case v of
        PyFloat y \<Rightarrow> Inr (x > y)
      | PyStr s \<Rightarrow>
          Inl (TypeError (quoted ''>'' @ '' not supported between instances of ''
                 @ quoted ''float'' @ '' and '' @ quoted ''str'')))"

subsection \<open>Colours\<close>

definition green :: nat where
  "green = 65280"

definition red :: nat where
  "red = 16711680"

section \<open>DiscordNotifier\<close>

text \<open>\<open>send_message\<close>: one outbound webhook call; its exception, if any, propagates.\<close>

definition send_message :: "world \<Rightarrow> content \<Rightarrow> nat \<Rightarrow> bot \<Rightarrow> (exn + unit) \<times> bot" where
  "send_message w c color s =
     (case webhook_send w (trace s) c color of
        Some e \<Rightarrow> (Inl e, emit (WebhookSend c color) s)
      | None \<Rightarrow> (Inr (), emit (WebhookSend c color) s))"

definition send_trade_alert :: "world \<Rightarrow> trade \<Rightarrow> bot \<Rightarrow> (exn + unit) \<times> bot" where
  "send_trade_alert w trade_info s =
     (let emoji = (if action trade_info = ascii ''BUY'' then GreenCircle else RedCircle);
          color = (if action trade_info = ascii ''BUY'' then green else red)
      in send_message w (TradeAlertText emoji trade_info) color s)"

definition notify_daily_summary :: "world \<Rightarrow> summary \<Rightarrow> bot \<Rightarrow> (exn + unit) \<times> bot" where
  "notify_daily_summary w sm s =
     (let color = (if pnl sm \<ge> 0 then green else red)
      in send_message w (DailySummaryText sm) color s)"

definition send_error_alert :: "world \<Rightarrow> string \<Rightarrow> bot \<Rightarrow> (exn + unit) \<times> bot" where
  "send_error_alert w error_msg s = send_message w (ErrorAlertText error_msg) red s"

section \<open>TradingBot\<close>

definition check_market_hours :: "world \<Rightarrow> bot \<Rightarrow> (exn + bool) \<times> bot" where
  "check_market_hours w s = (get_clock w (trace s), emit GetClock s)"

text \<open>The order of \<open>execute_trade\<close>: a market order, good till cancelled.\<close>

definition market_order :: "string \<Rightarrow> int \<Rightarrow> pystr \<Rightarrow> order" where
  "market_order symb qty side =
     \<lparr>order_symbol = symb, order_qty = qty, order_side = side,
      order_type = ''market'', order_time_in_force = ''gtc''\<rparr>"

text \<open>
  The dictionary \<open>trade_info\<close>: the uppercased side, the caller's symbol, quantity and
  price, and the float product of price and quantity. Building it raises when the
  quantity does not convert to a float.
\<close>

definition build_trade_info ::
  "(nat \<Rightarrow> nat list) \<Rightarrow> string \<Rightarrow> int \<Rightarrow> pystr \<Rightarrow> real \<Rightarrow> exn + trade" where
  "build_trade_info U symb qty side pr =
     (case float_mul_int pr qty of
        Inl e \<Rightarrow> Inl e
      | Inr tot \<Rightarrow>
          Inr \<lparr>action = upper U side, symbol = symb, quantity = qty, price = pr,
               total = tot\<rparr>)"

text \<open>
  \<open>execute_trade\<close>: the body of the \<open>try\<close> block. The order is submitted, the trade
  record is built from the caller's arguments, the trade alert is sent, and only then
  is the record appended and returned. The first exception ends the block.
\<close>

definition execute_trade_body ::
  "world \<Rightarrow> string \<Rightarrow> int \<Rightarrow> pystr \<Rightarrow> real \<Rightarrow> bot \<Rightarrow> (exn + trade) \<times> bot" where
  "execute_trade_body w symb qty side pr s =
     (let s1 = emit (SubmitOrder (market_order symb qty side)) s
      in case submit_order w (trace s) (market_order symb qty side) of
           Some e \<Rightarrow> (Inl e, s1)
         | None \<Rightarrow>
             (case build_trade_info (unicode_upper w) symb qty side pr of
                Inl e \<Rightarrow> (Inl e, s1)
              | Inr trade_info \<Rightarrow>
                  (case send_trade_alert w trade_info s1 of
                     (Inl e, s2) \<Rightarrow> (Inl e, s2)
                   | (Inr _, s2) \<Rightarrow>
                       (Inr trade_info,
                        emit (ListAppend trade_info)
                          (s2\<lparr>daily_trades := daily_trades s2 @ [trade_info]\<rparr>)))))"

text \<open>
  The \<open>except Exception\<close> handler: send the error alert, then re-raise the caught
  exception. If the error alert itself raises, that exception leaves the handler instead.
\<close>

definition execute_trade ::
  "world \<Rightarrow> string \<Rightarrow> int \<Rightarrow> pystr \<Rightarrow> real \<Rightarrow> bot \<Rightarrow> (exn + trade) \<times> bot" where
  "execute_trade w symb qty side pr s =
     (case execute_trade_body w symb qty side pr s of
        (Inr t, s') \<Rightarrow> (Inr t, s')
      | (Inl e, s') \<Rightarrow>
          (case send_error_alert w (''Trade execution failed: '' @ str_exn e) s' of
             (Inl e', s'') \<Rightarrow> (Inl e', s'')
           | (Inr _, s'') \<Rightarrow> (Inl e, s'')))"

text \<open>
  The statistics of \<open>send_daily_summary\<close>, between the account fetch and the
  notification. First the P/L lines: both fields go through \<open>float\<close>, and the
  percentage divides by \<open>last_equity\<close> unguarded.
\<close>

definition pnl_lines :: "account \<Rightarrow> exn + real \<times> real" where
  "pnl_lines acct =
     (case py_float (equity acct) of
        Inl e \<Rightarrow> Inl e
      | Inr eq \<Rightarrow>
          (case py_float (last_equity acct) of
             Inl e \<Rightarrow> Inl e
           | Inr le \<Rightarrow>
               (let pnl_v = eq - le
                in case float_div pnl_v le of
                     Inl e \<Rightarrow> Inl e
                   | Inr q \<Rightarrow> Inr (pnl_v, q * 100))))"

text \<open>
  The condition of the generator, with Python's short-circuit evaluation. The price is
  compared with \<open>account.equity\<close> as fetched, without \<open>float\<close>.
\<close>

definition is_winning :: "pyval \<Rightarrow> trade \<Rightarrow> exn + bool" where
  "is_winning account_equity trade =
     (case (if action trade = ascii ''BUY'' then py_lt (price trade) account_equity
            else Inr False) of
        Inl e \<Rightarrow> Inl e
      | Inr True \<Rightarrow> Inr True
      | Inr False \<Rightarrow>
          (if action trade = ascii ''SELL'' then py_gt (price trade) account_equity
           else Inr False))"

fun winning_trades_of :: "pyval \<Rightarrow> trade list \<Rightarrow> exn + nat" where
  "winning_trades_of account_equity [] = Inr 0"
| "winning_trades_of account_equity (trade # trades) =
     (case is_winning account_equity trade of
        Inl e \<Rightarrow> Inl e
      | Inr b \<Rightarrow>
          (case winning_trades_of account_equity trades of
             Inl e \<Rightarrow> Inl e
           | Inr n \<Rightarrow> Inr ((if b then 1 else 0) + n)))"

text \<open>The win rate divides only when there is a trade.\<close>

definition win_rate_of :: "pyval \<Rightarrow> trade list \<Rightarrow> exn + real" where
  "win_rate_of account_equity trades =
     (let total_trades_v = length trades
      in case winning_trades_of account_equity trades of
           Inl e \<Rightarrow> Inl e
         | Inr winning_trades \<Rightarrow>
             if total_trades_v > 0
             then (case int_true_div winning_trades total_trades_v of
                     Inl e \<Rightarrow> Inl e
                   | Inr q \<Rightarrow> Inr (q * 100))
             else Inr 0)"

definition daily_statistics :: "string \<Rightarrow> account \<Rightarrow> trade list \<Rightarrow> exn + summary" where
  "daily_statistics d acct trades =
     (let total_trades_v = length trades
      in case pnl_lines acct of
           Inl e \<Rightarrow> Inl e
         | Inr (pnl_v, pnl_percentage_v) \<Rightarrow>
             (case win_rate_of (equity acct) trades of
                Inl e \<Rightarrow> Inl e
              | Inr win_rate_v \<Rightarrow>
                  (case py_float (equity acct) of
                     Inl e \<Rightarrow> Inl e
                   | Inr balance_v \<Rightarrow>
                       Inr \<lparr>date = d, total_trades = total_trades_v, pnl = pnl_v,
                            pnl_percentage = pnl_percentage_v, balance = balance_v,
                            win_rate = win_rate_v\<rparr>)))"

definition send_daily_summary :: "world \<Rightarrow> bot \<Rightarrow> (exn + unit) \<times> bot" where
  "send_daily_summary w s =
     (let s1 = emit GetAccount s
      in case get_account w (trace s) of
           Inl e \<Rightarrow> (Inl e, s1)
         | Inr acct \<Rightarrow>
             (case daily_statistics (today w (trace s1)) acct (daily_trades s1) of
                Inl e \<Rightarrow> (Inl e, s1)
              | Inr sm \<Rightarrow> notify_daily_summary w sm s1))"

text \<open>
  \<open>run\<close>: the body of the \<open>try\<close> block, then the catch-all handler. The strategy
  step of the source is a comment, so nothing stands between the session message and the
  daily summary.
\<close>

definition run_body :: "world \<Rightarrow> bot \<Rightarrow> (exn + unit) \<times> bot" where
  "run_body w s =
     (case check_market_hours w s of
        (Inl e, s1) \<Rightarrow> (Inl e, s1)
      | (Inr is_open, s1) \<Rightarrow>
          if \<not> is_open then send_message w (Text ''Market is closed'') green s1
          else
            (let s2 = emit GetAccount s1
             in case get_account w (trace s1) of
                  Inl e \<Rightarrow> (Inl e, s2)
                | Inr acct \<Rightarrow>
                    (case py_float (equity acct) of
                       Inl e \<Rightarrow> (Inl e, s2)
                     | Inr b \<Rightarrow>
                         (case send_message w (SessionStartedText b) green s2 of
                            (Inl e, s3) \<Rightarrow> (Inl e, s3)
                          | (Inr _, s3) \<Rightarrow> send_daily_summary w s3))))"

definition run :: "world \<Rightarrow> bot \<Rightarrow> (exn + unit) \<times> bot" where
  "run w s =
     (case run_body w s of
        (Inr u, s') \<Rightarrow> (Inr u, s')
      | (Inl e, s') \<Rightarrow>
          (case send_error_alert w (''Error in trading bot: '' @ str_exn e) s' of
             (Inl e', s'') \<Rightarrow> (Inl e', s'')
           | (Inr _, s'') \<Rightarrow>
               (Inl e, emit (Log ERROR (Text (''Error in trading bot: '' @ str_exn e))) s'')))"

section \<open>TradingBot of the plain script\<close>

text \<open>
  The plain script has no notifier and no trade list: its state is the trace alone, and
  what the notifying script sends it writes to the log.
\<close>

definition plain_check_market_hours :: "world \<Rightarrow> event list \<Rightarrow> (exn + bool) \<times> event list" where
  "plain_check_market_hours w tr = (get_clock w tr, tr @ [GetClock])"

definition plain_run_body :: "world \<Rightarrow> event list \<Rightarrow> (exn + unit) \<times> event list" where
  "plain_run_body w tr =
     (case plain_check_market_hours w tr of
        (Inl e, tr1) \<Rightarrow> (Inl e, tr1)
      | (Inr is_open, tr1) \<Rightarrow>
          if \<not> is_open then (Inr (), tr1 @ [Log INFO (Text ''Market is closed'')])
          else
            (case get_account w tr1 of
               Inl e \<Rightarrow> (Inl e, tr1 @ [GetAccount])
             | Inr acct \<Rightarrow>
                 (case py_float (equity acct) of
                    Inl e \<Rightarrow> (Inl e, tr1 @ [GetAccount])
                  | Inr b \<Rightarrow>
                      (Inr (), tr1 @ [GetAccount, Log INFO (CurrentBalanceText b)]))))"

definition plain_run :: "world \<Rightarrow> event list \<Rightarrow> (exn + unit) \<times> event list" where
  "plain_run w tr =
     (case plain_run_body w tr of
        (Inr u, tr') \<Rightarrow> (Inr u, tr')
      | (Inl e, tr') \<Rightarrow>
          (Inl e, tr' @ [Log ERROR (Text (''Error in trading bot: '' @ str_exn e))]))"

section \<open>Values the properties speak about\<close>

text \<open>
  The trade alert for a record and the texts of the error alerts, as the source writes
  them.
\<close>

definition alert_content :: "trade \<Rightarrow> content" where
  "alert_content t =
     TradeAlertText (if action t = ascii ''BUY'' then GreenCircle else RedCircle) t"

definition alert_color :: "trade \<Rightarrow> nat" where
  "alert_color t = (if action t = ascii ''BUY'' then green else red)"

definition failure_text :: "exn \<Rightarrow> content" where
  "failure_text e = ErrorAlertText (''Trade execution failed: '' @ str_exn e)"

definition bot_error_text :: "exn \<Rightarrow> content" where
  "bot_error_text e = ErrorAlertText (''Error in trading bot: '' @ str_exn e)"

definition closed_text :: content where
  "closed_text = Text ''Market is closed''"

section \<open>Reading a trace\<close>

text \<open>The effects a call added to the trace, and the kinds of effect the properties count.\<close>

definition new_events :: "bot \<Rightarrow> bot \<Rightarrow> event list" where
  "new_events s s' = drop (length (trace s)) (trace s')"

fun is_error_alert :: "event \<Rightarrow> bool" where
  "is_error_alert (WebhookSend (ErrorAlertText m) c) = True"
| "is_error_alert ev = False"

fun is_trade_alert :: "event \<Rightarrow> bool" where
  "is_trade_alert (WebhookSend (TradeAlertText em t) c) = True"
| "is_trade_alert ev = False"

fun is_summary_send :: "event \<Rightarrow> bool" where
  "is_summary_send (WebhookSend (DailySummaryText sm) c) = True"
| "is_summary_send ev = False"

fun is_market_closed :: "event \<Rightarrow> bool" where
  "is_market_closed (WebhookSend (Text m) c) = (m = ''Market is closed'')"
| "is_market_closed ev = False"

fun is_list_append :: "event \<Rightarrow> bool" where
  "is_list_append (ListAppend t) = True"
| "is_list_append ev = False"

fun is_submit :: "event \<Rightarrow> bool" where
  "is_submit (SubmitOrder req) = True"
| "is_submit ev = False"

fun is_account_fetch :: "event \<Rightarrow> bool" where
  "is_account_fetch GetAccount = True"
| "is_account_fetch ev = False"

text \<open>Some effect of kind \<open>P\<close> stands in the trace before some effect of kind \<open>Q\<close>.\<close>

fun occurs_before :: "(event \<Rightarrow> bool) \<Rightarrow> (event \<Rightarrow> bool) \<Rightarrow> event list \<Rightarrow> bool" where
  "occurs_before P Q [] = False"
| "occurs_before P Q (x # xs) = ((P x \<and> list_ex Q xs) \<or> occurs_before P Q xs)"

text \<open>A list grew by nothing, or by one element at its end.\<close>

definition append_only :: "'a list \<Rightarrow> 'a list \<Rightarrow> bool" where
  "append_only old new =
     (new = old \<or> (length new = Suc (length old) \<and> butlast new = old))"

text \<open>
  The win condition in the words of the specification: a BUY below the account's equity,
  or a SELL above it.
\<close>

definition counts_as_winning :: "real \<Rightarrow> trade \<Rightarrow> bool" where
  "counts_as_winning account_equity t =
     (if action t = ascii ''BUY'' then price t < account_equity
      else if action t = ascii ''SELL'' then price t > account_equity
      else False)"

text \<open>
  Uppercasing in the words of the specification, for one ASCII code point: a lowercase
  letter becomes the capital 32 places before it, anything else stays.
\<close>

definition ascii_capital :: "nat \<Rightarrow> nat" where
  "ascii_capital c = (if c \<in> {97..122} then c - 32 else c)"

section \<open>Concrete worlds\<close>

text \<open>
  The uppercase table for the Latin-1 code points; beyond them it is not filled in, and
  no input of the theory goes there.
\<close>

definition latin1_upper :: "nat \<Rightarrow> nat list" where
  "latin1_upper c =
     (if c = 223 then [83, 83]
      else if c = 181 then [924]
      else if c = 255 then [376]
      else if 224 \<le> c \<and> c \<le> 254 \<and> c \<noteq> 247 then [c - 32]
      else [c])"

text \<open>
  \<open>ok_world\<close>: the market is open, every call succeeds, and the account fields are
  strings, as the brokerage library delivers them. \<open>mock_world\<close> has numbers in their
  place. The others differ from \<open>ok_world\<close> in one reply: the market is closed, the order
  is rejected, the webhook refuses trade alerts, or the previous session's equity is
  zero; \<open>closed_mute_world\<close> has the market closed and the webhook down for every message.
\<close>

definition ok_account :: account where
  "ok_account = \<lparr>equity = PyStr ''10500'', last_equity = PyStr ''10000''\<rparr>"

definition mock_account :: account where
  "mock_account = \<lparr>equity = PyFloat 10500, last_equity = PyFloat 10000\<rparr>"


definition ok_world :: world where
  "ok_world =
     \<lparr>get_clock = (\<lambda>h. Inr True),
      get_account = (\<lambda>h. Inr ok_account),
      submit_order = (\<lambda>h req. None),
      webhook_send = (\<lambda>h c color. None),
      today = (\<lambda>h. ''2024-01-02''),
      unicode_upper = latin1_upper\<rparr>"

definition mock_world :: world where
  "mock_world = ok_world\<lparr>get_account := (\<lambda>h. Inr mock_account)\<rparr>"

definition closed_world :: world where
  "closed_world = ok_world\<lparr>get_clock := (\<lambda>h. Inr False)\<rparr>"

definition reject_world :: world where
  "reject_world = ok_world\<lparr>submit_order := (\<lambda>h req. Some (BrokerageError ''rejected''))\<rparr>"

definition closed_mute_world :: world where
  "closed_mute_world =
     closed_world\<lparr>webhook_send := (\<lambda>h c color. Some (WebhookError ''down''))\<rparr>"

definition alert_down_world :: world where
  "alert_down_world =
     ok_world\<lparr>webhook_send :=
       (\<lambda>h c color. case c of TradeAlertText em t \<Rightarrow> Some (WebhookError ''down'')
                      | _ \<Rightarrow> None)\<rparr>"


definition aapl_order :: order where
  "aapl_order =
     \<lparr>order_symbol = ''AAPL'', order_qty = 10, order_side = ascii ''buy'',
      order_type = ''market'', order_time_in_force = ''gtc''\<rparr>"

definition aapl_trade :: trade where
  "aapl_trade =
     \<lparr>action = ascii ''BUY'', symbol = ''AAPL'', quantity = 10, price = 50,
      total = Finite 500\<rparr>"

definition sell_trade :: trade where
  "sell_trade =
     \<lparr>action = ascii ''SELL'', symbol = ''AAPL'', quantity = 10, price = 20000,
      total = Finite 200000\<rparr>"

definition dear_buy :: trade where
  "dear_buy =
     \<lparr>action = ascii ''BUY'', symbol = ''AAPL'', quantity = 1, price = 10500,
      total = Finite 10500\<rparr>"

text \<open>
  The double that the literal \<open>0.1\<close> denotes, and the record of three units bought at
  that price: its total is the double \<open>0.30000000000000004\<close>.
\<close>

definition tenth :: real where
  "tenth = 3602879701896397 / 2 ^ 55"

definition tenth_trade :: trade where
  "tenth_trade =
     \<lparr>action = ascii ''BUY'', symbol = ''AAPL'', quantity = 3, price = tenth,
      total = Finite (5404319552844596 / 2 ^ 54)\<rparr>"

definition three_trades_summary :: summary where
  "three_trades_summary =
     \<lparr>date = ''2024-01-02'', total_trades = 3, pnl = 500, pnl_percentage = 5,
      balance = 10500, win_rate = 200 / 3\<rparr>"

definition no_trades_summary :: summary where
  "no_trades_summary =
     \<lparr>date = ''2024-01-02'', total_trades = 0, pnl = 500, pnl_percentage = 5,
      balance = 10500, win_rate = 0\<rparr>"

definition one_trade_summary :: summary where
  "one_trade_summary =
     \<lparr>date = ''2024-01-02'', total_trades = 1, pnl = 500, pnl_percentage = 5,
      balance = 10500, win_rate = 100\<rparr>"

text \<open>The bot after one successful purchase of ten shares at 50.\<close>

definition after_trade :: bot where
  "after_trade =
     \<lparr>daily_trades = [aapl_trade],
      trace = [SubmitOrder aapl_order,
               WebhookSend (TradeAlertText GreenCircle aapl_trade) green,
               ListAppend aapl_trade]\<rparr>"

definition lt_type_error :: exn where
  "lt_type_error =
     TypeError (quoted ''<'' @ '' not supported between instances of ''
       @ quoted ''float'' @ '' and '' @ quoted ''str'')"

definition gt_type_error :: exn where
  "gt_type_error =
     TypeError (quoted ''>'' @ '' not supported between instances of ''
       @ quoted ''float'' @ '' and '' @ quoted ''str'')"

section \<open>Basic facts\<close>

lemma upper_buy: "upper U (ascii ''buy'') = ascii ''BUY''"
  by (simp add: upper_def upper_code_def ascii_def)

lemma buy_neq_sell: "ascii ''BUY'' \<noteq> ascii ''SELL''"
  by (simp add: ascii_def)

text \<open>
  \<open>upper\<close> against the specification's wording: on ASCII input it capitalises letter by
  letter, and in general it leaves the other code points to the runtime's table.
\<close>

lemma upper_eq:
  "upper U side = concat (map (\<lambda>c. if c < 128 then [ascii_capital c] else U c) side)"
  by (induction side) (auto simp: upper_def upper_code_def ascii_capital_def)

lemma upper_ascii:
  assumes "list_all (\<lambda>c. c < 128) side"
  shows "upper U side = map ascii_capital side"
  using assms by (induction side) (auto simp: upper_def upper_code_def ascii_capital_def)

lemma trace_emit [simp]: "trace (emit ev s) = trace s @ [ev]"
  by (simp add: emit_def)

lemma daily_trades_emit [simp]: "daily_trades (emit ev s) = daily_trades s"
  by (simp add: emit_def)

lemma init_fields [simp]: "trace init = []" "daily_trades init = []"
  by (simp_all add: init_def)

lemma send_message_eq:
  "send_message w c col s =
     ((case webhook_send w (trace s) c col of None \<Rightarrow> Inr () | Some e \<Rightarrow> Inl e),
      emit (WebhookSend c col) s)"
  by (simp add: send_message_def split: option.splits)

subsection \<open>The rounding\<close>

text \<open>
  \<open>binary_exponent\<close> is the exponent of the leading bit, \<open>round_half_even\<close> is within
  one half of its argument, and a finite \<open>to_double x\<close> is within half a quantum of \<open>x\<close>.
\<close>

lemma round_half_even_near: "\<bar>x - of_int (round_half_even x)\<bar> \<le> 1 / 2"
  unfolding round_half_even_def Let_def by (auto simp: abs_le_iff)

lemma round_half_even_int: "round_half_even (of_int k) = k"
  by (simp add: round_half_even_def)

lemma binary_exponent_bounds:
  assumes "0 < a"
  shows "pow2 (binary_exponent a) \<le> a \<and> a < pow2 (binary_exponent a + 1)"
proof (cases "a \<ge> 1")
  case True
  define n where "n = nat \<lfloor>a\<rfloor>"
  have n1: "n > 0" using True by (simp add: n_def)
  have na: "real n \<le> a" "a < real n + 1"
    using True by (simp_all add: n_def)
  from floorlog_bounds [of n 2] n1
  have lo: "2 ^ (floorlog 2 n - 1) \<le> n" and hi: "n < 2 ^ floorlog 2 n" by simp_all
  have fpos: "floorlog 2 n > 0" using n1 floorlog_eq_zero_iff [of 2 n] by auto
  have e: "binary_exponent a = int (floorlog 2 n) - 1"
    using True by (simp add: binary_exponent_def n_def)
  have p1: "pow2 (binary_exponent a) = 2 ^ (floorlog 2 n - 1)"
    using fpos by (simp add: e pow2_def nat_diff_distrib')
  have p2: "pow2 (binary_exponent a + 1) = 2 ^ floorlog 2 n"
    by (simp add: e pow2_def)
  have "(2::real) ^ (floorlog 2 n - 1) \<le> real n"
    using of_nat_mono [OF lo, where 'a = real] by simp
  then have l: "2 ^ (floorlog 2 n - 1) \<le> a" using na by linarith
  have "n + 1 \<le> 2 ^ floorlog 2 n" using hi by simp
  from of_nat_mono [OF this, where 'a = real]
  have "real n + 1 \<le> 2 ^ floorlog 2 n" by simp
  then have h: "a < 2 ^ floorlog 2 n" using na by linarith
  from l h show ?thesis by (simp add: p1 p2)
next
  case False
  define m where "m = nat \<lceil>1 / a\<rceil>"
  define k where "k = floorlog 2 (m - 1)"
  have y: "1 / a > 1" using False assms by simp
  then have m2: "m \<ge> 2" unfolding m_def by linarith
  have my: "1 / a \<le> real m" "real m - 1 < 1 / a"
    using y unfolding m_def by linarith+
  from floorlog_bounds [of "m - 1" 2] m2
  have lo: "2 ^ (k - 1) \<le> m - 1" and hi: "m - 1 < 2 ^ k" by (simp_all add: k_def)
  have kpos: "k > 0" using m2 floorlog_eq_zero_iff [of 2 "m - 1"] by (auto simp: k_def)
  have e: "binary_exponent a = - int k"
    using False by (simp add: binary_exponent_def m_def k_def)
  have p1: "pow2 (binary_exponent a) = 1 / 2 ^ k"
    using kpos by (simp add: e pow2_def)
  have p2: "pow2 (binary_exponent a + 1) = 1 / 2 ^ (k - 1)"
  proof (cases "k = 1")
    case True
    then show ?thesis by (simp add: e pow2_def)
  next
    case False
    with kpos have "k \<ge> 2" by simp
    then have "nat (int k - 1) = k - 1" "\<not> (1 - int k \<ge> 0)" by simp_all
    then show ?thesis using \<open>k \<ge> 2\<close> by (simp add: e pow2_def)
  qed
  have "m \<le> 2 ^ k" using hi by simp
  from of_nat_mono [OF this, where 'a = real]
  have "real m \<le> 2 ^ k" by simp
  then have "1 / a \<le> 2 ^ k" using my by linarith
  then have l: "1 / 2 ^ k \<le> a" using assms by (simp add: field_simps)
  from of_nat_mono [OF lo, where 'a = real]
  have "(2::real) ^ (k - 1) \<le> real m - 1" using m2 by (simp add: of_nat_diff)
  then have "2 ^ (k - 1) < 1 / a" using my by linarith
  then have h: "a < 1 / 2 ^ (k - 1)" using assms by (simp add: field_simps)
  from l h show ?thesis by (simp add: p1 p2)
qed

lemma pow2_pos: "pow2 k > 0"
  by (simp add: pow2_def)

lemma to_double_near:
  assumes "to_double x = Finite r"
  shows "\<bar>x - r\<bar> \<le> pow2 (max (binary_exponent \<bar>x\<bar>) (- 1022) - 52) / 2"
proof (cases "x = 0")
  case True
  with assms show ?thesis using pow2_pos [of "max (binary_exponent \<bar>x\<bar>) (- 1022) - 52"]
    by (simp add: to_double_def)
next
  case False
  define q where "q = pow2 (max (binary_exponent \<bar>x\<bar>) (- 1022) - 52)"
  define m where "m = round_half_even (\<bar>x\<bar> / q)"
  have qpos: "q > 0" by (simp add: q_def pow2_pos)
  define v where "v = (if x > 0 then of_int m * q else - (of_int m * q))"
  define c where "c \<longleftrightarrow> of_int m * q \<ge> pow2 1024"
  have td: "to_double x = (if c then (if x > 0 then PosInf else NegInf) else Finite v)"
    unfolding to_double_def Let_def q_def m_def v_def c_def using False by (simp only: if_False)
  have r: "r = v"
  proof (cases c)
    case True
    with td assms show ?thesis by (cases "x > 0") simp_all
  next
    case False
    with td assms show ?thesis by simp
  qed
  have "\<bar>\<bar>x\<bar> / q - of_int m\<bar> \<le> 1 / 2"
    unfolding m_def by (rule round_half_even_near)
  then have "\<bar>\<bar>x\<bar> / q - of_int m\<bar> * q \<le> (1 / 2) * q"
    using qpos by (simp add: mult_right_mono)
  moreover have "\<bar>x\<bar> - of_int m * q = (\<bar>x\<bar> / q - of_int m) * q"
    using qpos by (simp add: field_simps)
  then have "\<bar>\<bar>x\<bar> / q - of_int m\<bar> * q = \<bar>\<bar>x\<bar> - of_int m * q\<bar>"
    using qpos by (simp only: abs_mult abs_of_pos)
  ultimately have n: "\<bar>\<bar>x\<bar> - of_int m * q\<bar> \<le> q / 2" by simp
  show ?thesis
  proof (cases "x > 0")
    case True
    with n r show ?thesis by (simp add: q_def v_def)
  next
    case neg: False
    with False have "x < 0" by simp
    with n r show ?thesis by (simp add: q_def v_def abs_if split: if_splits)
  qed
qed

subsection \<open>Doubles at the numbers of the examples\<close>

lemma binary_exponent_3: "binary_exponent 3 = 1"
  by (simp add: binary_exponent_def compute_floorlog)

lemma binary_exponent_10: "binary_exponent 10 = 3"
  by (simp add: binary_exponent_def compute_floorlog)

lemma binary_exponent_500: "binary_exponent 500 = 8"
  by (simp add: binary_exponent_def compute_floorlog)

lemma binary_exponent_three_tenths: "binary_exponent (tenth * 3) = - 2"
  by (simp add: binary_exponent_def tenth_def compute_floorlog)

lemma int_to_float_3: "int_to_float 3 = Inr 3"
  by (simp add: int_to_float_def to_double_def binary_exponent_3 pow2_def
      round_half_even_def Let_def)

lemma int_to_float_10: "int_to_float 10 = Inr 10"
  by (simp add: int_to_float_def to_double_def binary_exponent_10 pow2_def
      round_half_even_def Let_def)

lemma to_double_500: "to_double 500 = Finite 500"
  by (simp add: to_double_def binary_exponent_500 pow2_def round_half_even_def Let_def)

lemma to_double_three_tenths:
  "to_double (tenth * 3) = Finite (5404319552844596 / 2 ^ 54)"
proof -
  have nz: "tenth * 3 \<noteq> 0" "tenth * 3 > 0" "\<bar>tenth * 3\<bar> = tenth * 3"
    by (simp_all add: tenth_def)
  show ?thesis
    unfolding to_double_def Let_def nz binary_exponent_three_tenths
    by (simp add: pow2_def round_half_even_def tenth_def)
qed

lemma float_mul_50_10: "float_mul_int 50 10 = Inr (Finite 500)"
  by (simp add: float_mul_int_def int_to_float_10 to_double_500)

lemma float_mul_tenth_3: "float_mul_int tenth 3 = Inr (Finite (5404319552844596 / 2 ^ 54))"
  by (simp add: float_mul_int_def int_to_float_3 to_double_three_tenths)

subsection \<open>Account fields of the examples\<close>

lemmas parse_eval =
  py_float_def parse_float_def strip_def is_space_def parse_unsigned_def is_digit_def
  digits_val_def

lemma float_10500: "py_float (PyStr ''10500'') = Inr 10500"
  by (simp add: parse_eval)

lemma float_10000: "py_float (PyStr ''10000'') = Inr 10000"
  by (simp add: parse_eval)


lemma py_float_number [simp]: "py_float (PyFloat x) = Inr x"
  by (simp add: py_float_def)

section \<open>The ways through execute_trade\<close>

text \<open>A rejected order, a record that cannot be built, a failed alert, success.\<close>

lemma execute_trade_rejected:
  assumes "submit_order w (trace s) (market_order symb qty side) = Some e"
  shows "execute_trade w symb qty side pr s =
           (Inl (case webhook_send w (trace s @ [SubmitOrder (market_order symb qty side)])
                        (failure_text e) red of
                   None \<Rightarrow> e | Some e' \<Rightarrow> e'),
            s\<lparr>trace := trace s @ [SubmitOrder (market_order symb qty side),
                                    WebhookSend (failure_text e) red]\<rparr>)"
  using assms
  by (simp add: execute_trade_def execute_trade_body_def failure_text_def
      send_error_alert_def send_message_eq emit_def split: option.splits)

lemma execute_trade_unbuilt:
  assumes "submit_order w (trace s) (market_order symb qty side) = None"
      and "build_trade_info (unicode_upper w) symb qty side pr = Inl e"
  shows "execute_trade w symb qty side pr s =
           (Inl (case webhook_send w (trace s @ [SubmitOrder (market_order symb qty side)])
                        (failure_text e) red of
                   None \<Rightarrow> e | Some e' \<Rightarrow> e'),
            s\<lparr>trace := trace s @ [SubmitOrder (market_order symb qty side),
                                    WebhookSend (failure_text e) red]\<rparr>)"
  using assms
  by (simp add: execute_trade_def execute_trade_body_def failure_text_def
      send_error_alert_def send_message_eq emit_def split: option.splits)

lemma execute_trade_alert_fails:
  assumes "submit_order w (trace s) (market_order symb qty side) = None"
      and "build_trade_info (unicode_upper w) symb qty side pr = Inr t"
      and "webhook_send w (trace s @ [SubmitOrder (market_order symb qty side)])
             (alert_content t) (alert_color t) = Some e"
  shows "execute_trade w symb qty side pr s =
           (Inl (case webhook_send w
                        (trace s @ [SubmitOrder (market_order symb qty side),
                           WebhookSend (alert_content t) (alert_color t)])
                        (failure_text e) red of
                   None \<Rightarrow> e | Some e' \<Rightarrow> e'),
            s\<lparr>trace := trace s @
               [SubmitOrder (market_order symb qty side),
                WebhookSend (alert_content t) (alert_color t),
                WebhookSend (failure_text e) red]\<rparr>)"
  using assms
  by (simp add: execute_trade_def execute_trade_body_def
      alert_content_def alert_color_def send_trade_alert_def send_error_alert_def
      failure_text_def send_message_eq emit_def Let_def split: option.splits)

lemma execute_trade_ok:
  assumes "submit_order w (trace s) (market_order symb qty side) = None"
      and "build_trade_info (unicode_upper w) symb qty side pr = Inr t"
      and "webhook_send w (trace s @ [SubmitOrder (market_order symb qty side)])
             (alert_content t) (alert_color t) = None"
  shows "execute_trade w symb qty side pr s =
           (Inr t,
            \<lparr>daily_trades = daily_trades s @ [t],
             trace = trace s @
               [SubmitOrder (market_order symb qty side),
                WebhookSend (alert_content t) (alert_color t),
                ListAppend t]\<rparr>)"
  using assms
  by (simp add: execute_trade_def execute_trade_body_def
      alert_content_def alert_color_def send_trade_alert_def send_message_eq emit_def Let_def
      split: option.splits)

lemma execute_trade_success:
  assumes "fst (execute_trade w symb qty side pr s) = Inr t"
  shows "build_trade_info (unicode_upper w) symb qty side pr = Inr t \<and>
         snd (execute_trade w symb qty side pr s) =
           \<lparr>daily_trades = daily_trades s @ [t],
            trace = trace s @
              [SubmitOrder (market_order symb qty side),
               WebhookSend (alert_content t) (alert_color t), ListAppend t]\<rparr>"
proof (cases "submit_order w (trace s) (market_order symb qty side)")
  case (Some e)
  with assms show ?thesis by (simp add: execute_trade_rejected)
next
  case None
  show ?thesis
  proof (cases "build_trade_info (unicode_upper w) symb qty side pr")
    case (Inl e)
    from assms show ?thesis by (simp add: execute_trade_unbuilt [OF None Inl])
  next
    case (Inr t')
    show ?thesis
    proof (cases "webhook_send w (trace s @ [SubmitOrder (market_order symb qty side)])
                    (alert_content t') (alert_color t')")
      case ok: None
      from assms show ?thesis by (simp add: execute_trade_ok [OF None Inr ok] Inr)
    next
      case (Some e)
      from assms show ?thesis by (simp add: execute_trade_alert_fails [OF None Inr Some])
    qed
  qed
qed

lemma execute_trade_failure:
  assumes "fst (execute_trade w symb qty side pr s) = Inl e"
  shows "daily_trades (snd (execute_trade w symb qty side pr s)) = daily_trades s"
proof (cases "submit_order w (trace s) (market_order symb qty side)")
  case (Some e)
  then show ?thesis by (simp add: execute_trade_rejected)
next
  case None
  show ?thesis
  proof (cases "build_trade_info (unicode_upper w) symb qty side pr")
    case (Inl e)
    show ?thesis by (simp add: execute_trade_unbuilt [OF None Inl])
  next
    case (Inr t')
    show ?thesis
    proof (cases "webhook_send w (trace s @ [SubmitOrder (market_order symb qty side)])
                    (alert_content t') (alert_color t')")
      case ok: None
      from assms show ?thesis by (simp add: execute_trade_ok [OF None Inr ok])
    next
      case (Some e)
      show ?thesis by (simp add: execute_trade_alert_fails [OF None Inr Some])
    qed
  qed
qed

lemma ok_trade: "build_trade_info U ''AAPL'' 10 (ascii ''buy'') 50 = Inr aapl_trade"
  by (simp add: build_trade_info_def float_mul_50_10 aapl_trade_def upper_buy)

lemma aapl_market_order: "market_order ''AAPL'' 10 (ascii ''buy'') = aapl_order"
  by (simp add: market_order_def aapl_order_def)

lemma aapl_alert:
  "alert_content aapl_trade = TradeAlertText GreenCircle aapl_trade"
  "alert_color aapl_trade = green"
  by (simp_all add: alert_content_def alert_color_def aapl_trade_def)

lemma ok_world_execute:
  "execute_trade ok_world ''AAPL'' 10 (ascii ''buy'') 50 init = (Inr aapl_trade, after_trade)"
proof -
  have a: "submit_order ok_world (trace init) (market_order ''AAPL'' 10 (ascii ''buy'')) = None"
    by (simp add: ok_world_def)
  have b: "webhook_send ok_world
             (trace init @ [SubmitOrder (market_order ''AAPL'' 10 (ascii ''buy''))])
             (alert_content aapl_trade) (alert_color aapl_trade) = None"
    by (simp add: ok_world_def)
  show ?thesis
    unfolding execute_trade_ok [OF a ok_trade b]
    by (simp add: aapl_market_order aapl_alert after_trade_def)
qed

text \<open>
  The quantity \<open>2^1024\<close> does not convert to a float: with it the record cannot be
  built, and \<open>execute_trade\<close> fails with \<open>OverflowError\<close> after the order has been
  submitted.
\<close>

lemma int_to_float_huge:
  "int_to_float (2 ^ 1024) = Inl (OverflowError ''int too large to convert to float'')"
proof -
  define x :: real where "x = 2 ^ 1024"
  have xi: "real_of_int (2 ^ 1024) = x" by (simp add: x_def del: power_numeral)
  have pos: "x \<noteq> 0" "x > 0" "\<bar>x\<bar> = x" "x \<ge> 1"
    by (simp_all add: x_def del: power_numeral)
  have fx: "nat \<lfloor>x\<rfloor> = 2 ^ 1024"
  proof -
    have "x = of_nat (2 ^ 1024)" by (simp add: x_def del: power_numeral)
    then show ?thesis by (simp only: floor_of_nat nat_int)
  qed
  have "floorlog 2 (1 * 2 ^ 1024) = floorlog 2 1 + 1024"
    by (rule floorlog_power) simp_all
  moreover have "floorlog 2 1 = 1" by (simp add: compute_floorlog)
  ultimately have fl: "floorlog 2 (2 ^ 1024) = 1025"
    by (simp del: power_numeral)
  have e: "binary_exponent x = 1024"
    unfolding binary_exponent_def fx fl using pos by simp
  have q: "pow2 972 = 2 ^ 972" by (simp add: pow2_def del: power_numeral)
  have d: "x / 2 ^ 972 = of_int (2 ^ 52)"
    by (simp add: x_def del: power_numeral flip: power_diff)
  have r: "round_half_even (x / 2 ^ 972) = 2 ^ 52"
    unfolding d round_half_even_def Let_def by (simp del: power_numeral)
  have m: "real_of_int (2 ^ 52) * 2 ^ 972 = x"
    by (simp add: x_def del: power_numeral flip: power_add)
  have p: "pow2 1024 = x" by (simp add: pow2_def x_def del: power_numeral)
  have "to_double x = PosInf"
    unfolding to_double_def Let_def pos e using pos
    by (simp add: q r m p x_def [symmetric] del: power_numeral)
  then show ?thesis
    unfolding int_to_float_def xi by simp
qed

text \<open>
  The literal \<open>0.1\<close> denotes the double \<open>tenth\<close>; three units at that price make a
  record whose total is not three tenths.
\<close>

lemma binary_exponent_tenth: "binary_exponent tenth = - 4" "binary_exponent (1 / 10) = - 4"
  by (simp_all add: binary_exponent_def tenth_def compute_floorlog)

lemma tenth_is_double: "to_double tenth = Finite tenth"
proof -
  have nz: "tenth \<noteq> 0" "tenth > 0" "\<bar>tenth\<bar> = tenth"
    by (simp_all add: tenth_def)
  show ?thesis
    unfolding to_double_def Let_def nz binary_exponent_tenth
    by (simp add: pow2_def round_half_even_def tenth_def)
qed

lemma tenth_literal: "to_double (1 / 10) = Finite tenth"
  by (simp add: to_double_def binary_exponent_tenth pow2_def round_half_even_def Let_def
      tenth_def)

lemma tenth_build: "build_trade_info U ''AAPL'' 3 (ascii ''buy'') tenth = Inr tenth_trade"
  by (simp add: build_trade_info_def float_mul_tenth_3 tenth_trade_def upper_buy)

lemma tenth_execute:
  "fst (execute_trade ok_world ''AAPL'' 3 (ascii ''buy'') tenth init) = Inr tenth_trade"
proof -
  have a: "submit_order ok_world (trace init) (market_order ''AAPL'' 3 (ascii ''buy'')) = None"
    by (simp add: ok_world_def)
  have b: "webhook_send ok_world
             (trace init @ [SubmitOrder (market_order ''AAPL'' 3 (ascii ''buy''))])
             (alert_content tenth_trade) (alert_color tenth_trade) = None"
    by (simp add: ok_world_def)
  show ?thesis
    unfolding execute_trade_ok [OF a tenth_build b] by simp
qed

lemma huge_build:
  "build_trade_info U symb (2 ^ 1024) side pr =
     Inl (OverflowError ''int too large to convert to float'')"
  unfolding build_trade_info_def float_mul_int_def int_to_float_huge by simp

section \<open>Failure of the order submission\<close>

text \<open>
  C1. When \<open>submit_order\<close> raises, \<open>execute_trade\<close> fails: it sends exactly one error
  alert (the only effect after the submission), re-raises the submission's exception
  when that alert is delivered (and raises the alert's own exception otherwise), and
  leaves \<open>daily_trades\<close> as it was.
\<close>

theorem execute_trade_submit_failure:
  assumes "submit_order w (trace s) (market_order symb qty side) = Some e"
  shows "(\<exists>e'. fst (execute_trade w symb qty side pr s) = Inl e' \<and>
            (webhook_send w (trace s @ [SubmitOrder (market_order symb qty side)])
               (failure_text e) red = None \<longrightarrow> e' = e)) \<and>
         new_events s (snd (execute_trade w symb qty side pr s)) =
           [SubmitOrder (market_order symb qty side), WebhookSend (failure_text e) red] \<and>
         length (filter is_error_alert
                   (new_events s (snd (execute_trade w symb qty side pr s)))) = 1 \<and>
         daily_trades (snd (execute_trade w symb qty side pr s)) = daily_trades s"
  by (simp add: execute_trade_rejected [OF assms] new_events_def failure_text_def)

text \<open>The rejected order of \<open>reject_world\<close>.\<close>

theorem execute_trade_submit_failure_witness:
  "submit_order reject_world (trace init) (market_order ''AAPL'' 10 (ascii ''buy''))
     = Some (BrokerageError ''rejected'') \<and>
   fst (execute_trade reject_world ''AAPL'' 10 (ascii ''buy'') 50 init)
     = Inl (BrokerageError ''rejected'') \<and>
   new_events init (snd (execute_trade reject_world ''AAPL'' 10 (ascii ''buy'') 50 init)) =
     [SubmitOrder aapl_order, WebhookSend (ErrorAlertText ''Trade execution failed: rejected'') red] \<and>
   daily_trades (snd (execute_trade reject_world ''AAPL'' 10 (ascii ''buy'') 50 init)) = []"
  using execute_trade_submit_failure
    [of reject_world init "''AAPL''" 10 "ascii ''buy''" "BrokerageError ''rejected''" 50]
  by (simp add: reject_world_def ok_world_def aapl_market_order failure_text_def)

section \<open>Order of the alert and the append\<close>

text \<open>
  C3 as stated has the append before the trade alert. In a successful call the trace shows
  no append before a trade alert.
\<close>

theorem append_before_alert_counterexample:
  "fst (execute_trade ok_world ''AAPL'' 10 (ascii ''buy'') 50 init) = Inr aapl_trade \<and>
   \<not> occurs_before is_list_append is_trade_alert
       (new_events init (snd (execute_trade ok_world ''AAPL'' 10 (ascii ''buy'') 50 init)))"
  by (simp add: ok_world_execute new_events_def after_trade_def)

text \<open>
  C3, amended. In every successful call of \<open>execute_trade\<close> the effects are, in this
  order: the order submission, the trade alert for the built record, the append of that
  record. The alert precedes the append.
\<close>

theorem execute_trade_alert_then_append:
  assumes "fst (execute_trade w symb qty side pr s) = Inr t"
  shows "new_events s (snd (execute_trade w symb qty side pr s)) =
           [SubmitOrder (market_order symb qty side),
            WebhookSend (alert_content t) (alert_color t), ListAppend t] \<and>
         occurs_before is_trade_alert is_list_append
           (new_events s (snd (execute_trade w symb qty side pr s))) \<and>
         \<not> occurs_before is_list_append is_trade_alert
           (new_events s (snd (execute_trade w symb qty side pr s)))"
  using execute_trade_success [OF assms]
  by (simp add: new_events_def alert_content_def)

text \<open>The successful call in \<open>ok_world\<close>.\<close>

theorem execute_trade_alert_then_append_witness:
  "fst (execute_trade ok_world ''AAPL'' 10 (ascii ''buy'') 50 init) = Inr aapl_trade \<and>
   new_events init (snd (execute_trade ok_world ''AAPL'' 10 (ascii ''buy'') 50 init)) =
     [SubmitOrder aapl_order, WebhookSend (TradeAlertText GreenCircle aapl_trade) green,
      ListAppend aapl_trade]"
  using execute_trade_alert_then_append
    [of ok_world "''AAPL''" 10 "ascii ''buy''" 50 init aapl_trade]
  by (simp add: ok_world_execute aapl_market_order aapl_alert)

section \<open>The trade record\<close>

text \<open>
  C6 as stated has \<open>total = price * quantity\<close> exactly. For three units at the double
  \<open>0.1\<close> the record's total is the double \<open>0.30000000000000004\<close>, which is not the
  product of its price and its quantity.
\<close>

theorem exact_total_counterexample:
  "fst (execute_trade ok_world ''AAPL'' 3 (ascii ''buy'') tenth init) = Inr tenth_trade \<and>
   price tenth_trade = tenth \<and> quantity tenth_trade = 3 \<and>
   total tenth_trade \<noteq> Finite (price tenth_trade * of_int (quantity tenth_trade))"
  by (simp add: tenth_execute) (simp add: tenth_trade_def tenth_def)

text \<open>
  C6, amended. The record \<open>execute_trade\<close> returns has the caller's symbol, quantity
  and price; its total is Python's float product of that price and that quantity, that
  is the product of the price and the quantity converted to a double, rounded to a
  double; its action is the uppercased side, which on ASCII input is the side with each
  lowercase letter replaced by its capital. No reply of the brokerage enters the record,
  and it is the record appended to \<open>daily_trades\<close>.
\<close>

theorem execute_trade_record:
  assumes "fst (execute_trade w symb qty side pr s) = Inr t"
  shows "symbol t = symb \<and> quantity t = qty \<and> price t = pr \<and>
         float_mul_int (price t) (quantity t) = Inr (total t) \<and>
         (\<exists>r. int_to_float qty = Inr r \<and> total t = to_double (pr * r)) \<and>
         action t = upper (unicode_upper w) side \<and>
         action t =
           concat (map (\<lambda>c. if c < 128 then [ascii_capital c] else unicode_upper w c) side) \<and>
         (list_all (\<lambda>c. c < 128) side \<longrightarrow> action t = map ascii_capital side) \<and>
         daily_trades (snd (execute_trade w symb qty side pr s)) = daily_trades s @ [t]"
proof -
  from execute_trade_success [OF assms]
  have b: "build_trade_info (unicode_upper w) symb qty side pr = Inr t"
    and l: "daily_trades (snd (execute_trade w symb qty side pr s)) = daily_trades s @ [t]"
    by simp_all
  from b obtain tot where m: "float_mul_int pr qty = Inr tot"
    and t: "t = \<lparr>action = upper (unicode_upper w) side, symbol = symb, quantity = qty,
                  price = pr, total = tot\<rparr>"
    by (auto simp: build_trade_info_def split: sum.splits)
  from m obtain r where r: "int_to_float qty = Inr r" "tot = to_double (pr * r)"
    by (auto simp: float_mul_int_def split: sum.splits)
  have u: "upper (unicode_upper w) side =
             concat (map (\<lambda>c. if c < 128 then [ascii_capital c] else unicode_upper w c) side)"
    by (rule upper_eq)
  have a: "list_all (\<lambda>c. c < 128) side \<longrightarrow>
             upper (unicode_upper w) side = map ascii_capital side"
    by (simp add: upper_ascii)
  from m r u a l show ?thesis
    unfolding t by simp
qed

text \<open>Ten shares bought at 50: here the float product is exact, 500.\<close>

theorem execute_trade_record_witness:
  "fst (execute_trade ok_world ''AAPL'' 10 (ascii ''buy'') 50 init) = Inr aapl_trade \<and>
   list_all (\<lambda>c. c < 128) (ascii ''buy'') \<and>
   action aapl_trade = map ascii_capital (ascii ''buy'') \<and>
   action aapl_trade = ascii ''BUY'' \<and> symbol aapl_trade = ''AAPL'' \<and>
   quantity aapl_trade = 10 \<and> price aapl_trade = 50 \<and>
   float_mul_int 50 10 = Inr (total aapl_trade) \<and> total aapl_trade = Finite 500 \<and>
   daily_trades (snd (execute_trade ok_world ''AAPL'' 10 (ascii ''buy'') 50 init))
     = [aapl_trade]"
proof -
  have s: "fst (execute_trade ok_world ''AAPL'' 10 (ascii ''buy'') 50 init) = Inr aapl_trade"
    by (simp add: ok_world_execute)
  have l: "list_all (\<lambda>c. c < 128) (ascii ''buy'')"
    by (simp add: ascii_def)
  from execute_trade_record [OF s] l
  have "action aapl_trade = map ascii_capital (ascii ''buy'')"
    and "float_mul_int (price aapl_trade) (quantity aapl_trade) = Inr (total aapl_trade)"
    and "daily_trades (snd (execute_trade ok_world ''AAPL'' 10 (ascii ''buy'') 50 init))
           = daily_trades init @ [aapl_trade]"
    by blast+
  with s l show ?thesis
    by (simp add: aapl_trade_def)
qed

section \<open>Failure of the trade alert\<close>

text \<open>
  C9. When the order was submitted and the trade alert raises, \<open>execute_trade\<close> sends an
  error alert and fails (with the alert's exception when the error alert is delivered),
  and \<open>daily_trades\<close> is unchanged: the submitted order is in the trace but not in the
  list, so the trade count and the win rate of a later summary do not see it.
\<close>

theorem execute_trade_alert_failure:
  assumes "submit_order w (trace s) (market_order symb qty side) = None"
      and "build_trade_info (unicode_upper w) symb qty side pr = Inr t"
      and "webhook_send w (trace s @ [SubmitOrder (market_order symb qty side)])
             (alert_content t) (alert_color t) = Some e"
  shows "(\<exists>e'. fst (execute_trade w symb qty side pr s) = Inl e' \<and>
            (webhook_send w
               (trace s @ [SubmitOrder (market_order symb qty side),
                  WebhookSend (alert_content t) (alert_color t)])
               (failure_text e) red = None \<longrightarrow> e' = e)) \<and>
         new_events s (snd (execute_trade w symb qty side pr s)) =
           [SubmitOrder (market_order symb qty side),
            WebhookSend (alert_content t) (alert_color t),
            WebhookSend (failure_text e) red] \<and>
         daily_trades (snd (execute_trade w symb qty side pr s)) = daily_trades s \<and>
         length (daily_trades (snd (execute_trade w symb qty side pr s))) =
           length (daily_trades s) \<and>
         win_rate_of eq (daily_trades (snd (execute_trade w symb qty side pr s))) =
           win_rate_of eq (daily_trades s)"
  by (simp add: execute_trade_alert_fails [OF assms] new_events_def)

text \<open>The webhook of \<open>alert_down_world\<close> refuses trade alerts and nothing else.\<close>

theorem execute_trade_alert_failure_witness:
  "submit_order alert_down_world (trace init) (market_order ''AAPL'' 10 (ascii ''buy'')) = None \<and>
   build_trade_info (unicode_upper alert_down_world) ''AAPL'' 10 (ascii ''buy'') 50
     = Inr aapl_trade \<and>
   webhook_send alert_down_world
     (trace init @ [SubmitOrder (market_order ''AAPL'' 10 (ascii ''buy''))])
     (alert_content aapl_trade) (alert_color aapl_trade) = Some (WebhookError ''down'') \<and>
   fst (execute_trade alert_down_world ''AAPL'' 10 (ascii ''buy'') 50 init)
     = Inl (WebhookError ''down'') \<and>
   new_events init (snd (execute_trade alert_down_world ''AAPL'' 10 (ascii ''buy'') 50 init)) =
     [SubmitOrder aapl_order, WebhookSend (TradeAlertText GreenCircle aapl_trade) green,
      WebhookSend (ErrorAlertText ''Trade execution failed: down'') red] \<and>
   daily_trades (snd (execute_trade alert_down_world ''AAPL'' 10 (ascii ''buy'') 50 init)) = []"
proof -
  have a: "submit_order alert_down_world (trace init)
             (market_order ''AAPL'' 10 (ascii ''buy'')) = None"
    by (simp add: alert_down_world_def ok_world_def)
  have c: "webhook_send alert_down_world
             (trace init @ [SubmitOrder (market_order ''AAPL'' 10 (ascii ''buy''))])
             (alert_content aapl_trade) (alert_color aapl_trade) = Some (WebhookError ''down'')"
    by (simp add: alert_down_world_def aapl_alert)
  have d: "webhook_send alert_down_world h (failure_text x) red = None" for h x
    by (simp add: alert_down_world_def ok_world_def failure_text_def)
  note h = execute_trade_alert_failure [OF a ok_trade c]
  from h obtain e' where
    e': "fst (execute_trade alert_down_world ''AAPL'' 10 (ascii ''buy'') 50 init) = Inl e'" and
    imp: "webhook_send alert_down_world
            (trace init @ [SubmitOrder (market_order ''AAPL'' 10 (ascii ''buy'')),
               WebhookSend (alert_content aapl_trade) (alert_color aapl_trade)])
            (failure_text (WebhookError ''down'')) red = None \<longrightarrow> e' = WebhookError ''down''"
    by blast
  from imp have "e' = WebhookError ''down''" by (simp add: d)
  with e' have r: "fst (execute_trade alert_down_world ''AAPL'' 10 (ascii ''buy'') 50 init)
                     = Inl (WebhookError ''down'')"
    by simp
  from h have ev:
    "new_events init (snd (execute_trade alert_down_world ''AAPL'' 10 (ascii ''buy'') 50 init)) =
       [SubmitOrder (market_order ''AAPL'' 10 (ascii ''buy'')),
        WebhookSend (alert_content aapl_trade) (alert_color aapl_trade),
        WebhookSend (failure_text (WebhookError ''down'')) red]"
    and dt: "daily_trades (snd (execute_trade alert_down_world ''AAPL'' 10 (ascii ''buy'') 50 init))
               = daily_trades init"
    by blast+
  from a ok_trade c r ev dt show ?thesis
    by (simp add: aapl_market_order aapl_alert failure_text_def)
qed

section \<open>The daily statistics\<close>

lemma is_winning_number:
  "is_winning (PyFloat x) t = Inr (counts_as_winning x t)"
  using buy_neq_sell
  by (auto simp: is_winning_def counts_as_winning_def py_lt_def py_gt_def split: bool.splits)

lemma is_winning_string:
  "is_winning (PyStr v) t =
     (if action t = ascii ''BUY'' then Inl lt_type_error
      else if action t = ascii ''SELL'' then Inl gt_type_error
      else Inr False)"
  by (simp add: is_winning_def py_lt_def py_gt_def lt_type_error_def gt_type_error_def)

text \<open>
  With a number for the equity, the generator counts the trades that the specification
  calls winning.
\<close>

lemma winning_trades_number:
  "winning_trades_of (PyFloat x) trades = Inr (length (filter (counts_as_winning x) trades))"
  by (induction trades) (simp_all add: is_winning_number)

text \<open>
  With a string for the equity, the first BUY or SELL trade raises \<open>TypeError\<close>; only a
  list without such trades is counted.
\<close>

lemma winning_trades_string:
  "winning_trades_of (PyStr v) trades =
     (case find (\<lambda>t. action t = ascii ''BUY'' \<or> action t = ascii ''SELL'') trades of
        None \<Rightarrow> Inr 0
      | Some t \<Rightarrow> Inl (if action t = ascii ''BUY'' then lt_type_error else gt_type_error))"
  by (induction trades) (auto simp: is_winning_string split: option.splits)

lemma winning_trades_error:
  assumes "winning_trades_of eq trades = Inl e"
  shows "\<exists>m. e = TypeError m"
proof (cases eq)
  case (PyFloat x)
  with assms show ?thesis by (simp add: winning_trades_number)
next
  case (PyStr v)
  with assms show ?thesis
    by (auto simp: winning_trades_string lt_type_error_def gt_type_error_def
        split: option.splits if_splits)
qed

lemma winning_trades_le:
  "winning_trades_of eq trades = Inr n \<Longrightarrow> n \<le> length trades"
proof (induction trades arbitrary: n)
  case Nil
  then show ?case by simp
next
  case (Cons t trades)
  then show ?case by (auto split: sum.splits if_splits)
qed

lemma win_rate_of_nil: "win_rate_of eq [] = Inr 0"
  by (simp add: win_rate_of_def)

lemma win_rate_of_counted:
  assumes "winning_trades_of eq trades = Inr n"
  shows "win_rate_of eq trades =
           Inr (if trades = [] then 0 else real n / real (length trades) * 100)"
  using assms by (simp add: win_rate_of_def int_true_div_def Let_def)

lemma win_rate_of_raises:
  assumes "winning_trades_of eq trades = Inl e"
  shows "win_rate_of eq trades = Inl e"
  using assms by (simp add: win_rate_of_def Let_def)

lemma win_rate_of_number:
  "win_rate_of (PyFloat x) trades =
     Inr (if trades = [] then 0
          else real (length (filter (counts_as_winning x) trades)) / real (length trades) * 100)"
  by (simp add: win_rate_of_counted [OF winning_trades_number])

lemma win_rate_of_no_zero_division:
  "win_rate_of eq trades \<noteq> Inl (ZeroDivisionError m)"
proof (cases "winning_trades_of eq trades")
  case (Inl e)
  with winning_trades_error [OF Inl] show ?thesis
    by (auto simp: win_rate_of_raises)
next
  case (Inr n)
  then show ?thesis by (simp add: win_rate_of_counted)
qed

lemma pnl_lines_nonzero:
  assumes "py_float (equity acct) = Inr eq" and "py_float (last_equity acct) = Inr le"
      and "le \<noteq> 0"
  shows "pnl_lines acct = Inr (eq - le, (eq - le) / le * 100)"
  using assms by (simp add: pnl_lines_def float_div_def Let_def)


lemma daily_statistics_computed:
  assumes "py_float (equity acct) = Inr eq" and "py_float (last_equity acct) = Inr le"
      and "le \<noteq> 0" and "winning_trades_of (equity acct) trades = Inr n"
  shows "daily_statistics d acct trades =
           Inr \<lparr>date = d, total_trades = length trades,
                pnl = eq - le, pnl_percentage = (eq - le) / le * 100,
                balance = eq,
                win_rate = (if trades = [] then 0
                            else real n / real (length trades) * 100)\<rparr>"
  using assms
  by (simp add: daily_statistics_def pnl_lines_nonzero win_rate_of_counted Let_def)

lemma daily_statistics_win_rate_raises:
  assumes "py_float (equity acct) = Inr eq" and "py_float (last_equity acct) = Inr le"
      and "le \<noteq> 0" and "winning_trades_of (equity acct) trades = Inl e"
  shows "daily_statistics d acct trades = Inl e"
  using assms
  by (simp add: daily_statistics_def pnl_lines_nonzero win_rate_of_raises Let_def)


lemma ok_account_fields:
  "py_float (equity ok_account) = Inr 10500" "py_float (last_equity ok_account) = Inr 10000"
  by (simp_all add: ok_account_def float_10500 float_10000)

lemma mock_account_fields:
  "py_float (equity mock_account) = Inr 10500" "py_float (last_equity mock_account) = Inr 10000"
  by (simp_all add: mock_account_def)


section \<open>The win rate\<close>

lemma aapl_is_winning_string: "is_winning (PyStr ''10500'') aapl_trade = Inl lt_type_error"
  by (simp add: is_winning_string aapl_trade_def)

lemma aapl_winning_trades_string:
  "winning_trades_of (PyStr ''10500'') [aapl_trade] = Inl lt_type_error"
  by (simp add: aapl_is_winning_string)

lemma aapl_statistics_string:
  "daily_statistics d ok_account [aapl_trade] = Inl lt_type_error"
proof -
  have "winning_trades_of (equity ok_account) [aapl_trade] = Inl lt_type_error"
    by (simp add: ok_account_def aapl_is_winning_string)
  from daily_statistics_win_rate_raises [OF ok_account_fields _ this]
  show ?thesis by simp
qed

text \<open>
  C2. The specification counts a BUY below the equity, or a SELL above it, as winning.
  With the account as the brokerage library delivers it, the equity is a string, and the
  comparison of the generator, which does not convert it, raises \<open>TypeError\<close> at the
  first BUY trade: no count, no win rate and no summary are computed. With a number in
  its place the same trade counts as winning and the win rate is 100.
\<close>

theorem win_rate_string_equity:
  "equity ok_account = PyStr ''10500'' \<and>
   is_winning (equity ok_account) aapl_trade = Inl lt_type_error \<and>
   winning_trades_of (equity ok_account) [aapl_trade] = Inl lt_type_error \<and>
   win_rate_of (equity ok_account) [aapl_trade] = Inl lt_type_error \<and>
   daily_statistics ''2024-01-02'' ok_account [aapl_trade] = Inl lt_type_error \<and>
   counts_as_winning 10500 aapl_trade \<and>
   win_rate_of (equity mock_account) [aapl_trade] = Inr 100"
proof -
  have e: "equity ok_account = PyStr ''10500''" by (simp add: ok_account_def)
  have w: "counts_as_winning 10500 aapl_trade"
    by (simp add: counts_as_winning_def aapl_trade_def)
  have m: "win_rate_of (equity mock_account) [aapl_trade] = Inr 100"
    by (simp add: mock_account_def win_rate_of_number w)
  show ?thesis
    unfolding e using w m [unfolded mock_account_def]
    by (simp add: aapl_is_winning_string win_rate_of_raises
        aapl_statistics_string mock_account_def)
qed

text \<open>
  Three trades against an equity of 10500: a BUY at 50 wins, a SELL at 20000 wins, a BUY
  at exactly 10500 does not. With a number for the equity the win rate is two thirds;
  with the string it is not computed.
\<close>

lemma three_trades_number:
  "daily_statistics ''2024-01-02'' mock_account [aapl_trade, sell_trade, dear_buy]
     = Inr three_trades_summary"
proof -
  have w: "winning_trades_of (equity mock_account) [aapl_trade, sell_trade, dear_buy] = Inr 2"
    using buy_neq_sell
    by (simp add: mock_account_def is_winning_number counts_as_winning_def
        aapl_trade_def sell_trade_def dear_buy_def)
  from daily_statistics_computed [OF mock_account_fields _ w]
  show ?thesis by (simp add: three_trades_summary_def)
qed

lemma three_trades_string:
  "daily_statistics ''2024-01-02'' ok_account [aapl_trade, sell_trade, dear_buy]
     = Inl lt_type_error"
proof -
  have "winning_trades_of (equity ok_account) [aapl_trade, sell_trade, dear_buy]
          = Inl lt_type_error"
    by (simp add: ok_account_def aapl_is_winning_string)
  from daily_statistics_win_rate_raises [OF ok_account_fields _ this]
  show ?thesis by simp
qed

text \<open>
  C10. Over an empty trade list the win rate is 0, whatever the equity field holds. The
  win-rate computation never raises \<open>ZeroDivisionError\<close>, whatever the list: its
  division runs only under \<open>total_trades > 0\<close>. With a number for the equity it never
  raises at all.
\<close>

theorem win_rate_no_trades:
  "win_rate_of eq [] = Inr 0 \<and>
   win_rate_of eq trades \<noteq> Inl (ZeroDivisionError m) \<and>
   (\<exists>r. win_rate_of (PyFloat x) trades = Inr r) \<and>
   (py_float (equity acct) = Inr e \<longrightarrow> py_float (last_equity acct) = Inr le \<longrightarrow> le \<noteq> 0 \<longrightarrow>
      (\<exists>sm. daily_statistics d acct [] = Inr sm \<and> total_trades sm = 0 \<and> win_rate sm = 0))"
proof -
  have "\<exists>sm. daily_statistics d acct [] = Inr sm \<and> total_trades sm = 0 \<and> win_rate sm = 0"
    if "py_float (equity acct) = Inr e" "py_float (last_equity acct) = Inr le" "le \<noteq> 0"
    using daily_statistics_computed [OF that, of "[]" 0 d] by simp
  then show ?thesis
    by (simp add: win_rate_of_nil win_rate_of_no_zero_division win_rate_of_number)
qed

text \<open>The summary of a day without trades.\<close>

theorem win_rate_no_trades_witness:
  "py_float (equity ok_account) = Inr 10500 \<and> py_float (last_equity ok_account) = Inr 10000 \<and>
   (10000 :: real) \<noteq> 0 \<and> win_rate_of (equity ok_account) [] = Inr 0 \<and>
   daily_statistics ''2024-01-02'' ok_account [] = Inr no_trades_summary \<and>
   total_trades no_trades_summary = 0 \<and> win_rate no_trades_summary = 0"
proof -
  have st: "daily_statistics ''2024-01-02'' ok_account [] = Inr no_trades_summary"
    using daily_statistics_computed [OF ok_account_fields, of "[]" 0 "''2024-01-02''"]
    by (simp add: no_trades_summary_def)
  from win_rate_no_trades [of "equity ok_account" "[]" _ _ ok_account 10500 10000 "''2024-01-02''"]
    ok_account_fields
  have "win_rate_of (equity ok_account) [] = Inr 0"
    and "\<exists>sm. daily_statistics ''2024-01-02'' ok_account [] = Inr sm \<and>
               total_trades sm = 0 \<and> win_rate sm = 0"
    by simp_all
  with st ok_account_fields show ?thesis by auto
qed

section \<open>The daily summary\<close>

lemma send_daily_summary_sent:
  assumes "get_account w (trace s) = Inr acct"
      and "daily_statistics (today w (trace s @ [GetAccount])) acct (daily_trades s) = Inr sm"
  shows "send_daily_summary w s =
           ((case webhook_send w (trace s @ [GetAccount]) (DailySummaryText sm)
                    (if pnl sm \<ge> 0 then green else red) of
               None \<Rightarrow> Inr () | Some e \<Rightarrow> Inl e),
            s\<lparr>trace := trace s @ [GetAccount,
                 WebhookSend (DailySummaryText sm) (if pnl sm \<ge> 0 then green else red)]\<rparr>)"
  using assms
  by (simp add: send_daily_summary_def notify_daily_summary_def send_message_eq Let_def emit_def)


lemma send_daily_summary_trades [simp]:
  "daily_trades (snd (send_daily_summary w s)) = daily_trades s"
  by (simp add: send_daily_summary_def notify_daily_summary_def send_message_eq Let_def
      split: sum.splits)




section \<open>End-to-end scenario\<close>

lemma one_trade_statistics_number:
  "daily_statistics ''2024-01-02'' mock_account [aapl_trade] = Inr one_trade_summary"
proof -
  have w: "winning_trades_of (equity mock_account) [aapl_trade] = Inr 1"
    by (simp add: mock_account_def is_winning_number counts_as_winning_def aapl_trade_def)
  from daily_statistics_computed [OF mock_account_fields _ w]
  show ?thesis by (simp add: one_trade_summary_def)
qed

text \<open>With numbers in the account, the scenario ends in the summary the specification expects.\<close>

lemma end_to_end_number:
  "execute_trade mock_world ''AAPL'' 10 (ascii ''buy'') 50 init = (Inr aapl_trade, after_trade) \<and>
   send_daily_summary mock_world after_trade =
     (Inr (),
      after_trade\<lparr>trace := trace after_trade @
         [GetAccount, WebhookSend (DailySummaryText one_trade_summary) green]\<rparr>)"
proof -
  have a: "submit_order mock_world (trace init) (market_order ''AAPL'' 10 (ascii ''buy'')) = None"
    by (simp add: mock_world_def ok_world_def)
  have b: "webhook_send mock_world
             (trace init @ [SubmitOrder (market_order ''AAPL'' 10 (ascii ''buy''))])
             (alert_content aapl_trade) (alert_color aapl_trade) = None"
    by (simp add: mock_world_def ok_world_def)
  have x: "execute_trade mock_world ''AAPL'' 10 (ascii ''buy'') 50 init
             = (Inr aapl_trade, after_trade)"
    unfolding execute_trade_ok [OF a ok_trade b]
    by (simp add: aapl_market_order aapl_alert after_trade_def)
  have g: "get_account mock_world (trace after_trade) = Inr mock_account"
    by (simp add: mock_world_def)
  have st: "daily_statistics (today mock_world (trace after_trade @ [GetAccount])) mock_account
              (daily_trades after_trade) = Inr one_trade_summary"
    using one_trade_statistics_number by (simp add: after_trade_def mock_world_def ok_world_def)
  have "send_daily_summary mock_world after_trade =
     (Inr (),
      after_trade\<lparr>trace := trace after_trade @
         [GetAccount, WebhookSend (DailySummaryText one_trade_summary) green]\<rparr>)"
    unfolding send_daily_summary_sent [OF g st]
    by (simp add: mock_world_def ok_world_def one_trade_summary_def)
  with x show ?thesis by simp
qed


section \<open>The run cycle\<close>

lemma run_body_trades [simp]: "daily_trades (snd (run_body w s)) = daily_trades s"
  by (simp add: run_body_def check_market_hours_def send_message_eq Let_def
      split: sum.splits bool.splits prod.splits)

lemma run_trades [simp]: "daily_trades (snd (run w s)) = daily_trades s"
proof (cases "run_body w s")
  case (Pair r s')
  have "daily_trades s' = daily_trades s"
    using run_body_trades [of w s] Pair by simp
  with Pair show ?thesis
    by (simp add: run_def send_error_alert_def send_message_eq split: sum.splits option.splits)
qed

lemma run_closed_delivered:
  assumes "get_clock w (trace s) = Inr False"
      and "webhook_send w (trace s @ [GetClock]) closed_text green = None"
  shows "run w s =
           (Inr (), s\<lparr>trace := trace s @ [GetClock, WebhookSend closed_text green]\<rparr>)"
  using assms
  by (simp add: run_def run_body_def check_market_hours_def send_message_eq closed_text_def
      emit_def)

lemma run_closed_undelivered:
  assumes "get_clock w (trace s) = Inr False"
      and "webhook_send w (trace s @ [GetClock]) closed_text green = Some e"
  shows "run w s =
           (case webhook_send w (trace s @ [GetClock, WebhookSend closed_text green])
                   (bot_error_text e) red of
              None \<Rightarrow>
                (Inl e, s\<lparr>trace := trace s @
                   [GetClock, WebhookSend closed_text green,
                    WebhookSend (bot_error_text e) red,
                    Log ERROR (Text (''Error in trading bot: '' @ str_exn e))]\<rparr>)
            | Some e' \<Rightarrow>
                (Inl e', s\<lparr>trace := trace s @
                   [GetClock, WebhookSend closed_text green,
                    WebhookSend (bot_error_text e) red]\<rparr>))"
  using assms
  by (simp add: run_def run_body_def check_market_hours_def send_message_eq closed_text_def
      send_error_alert_def bot_error_text_def emit_def split: option.splits)

text \<open>
  With the market closed and the webhook down, the handler's error alert fails too and its
  exception leaves \<open>run\<close>; the error is not logged.
\<close>

lemma run_closed_webhook_down:
  "run closed_mute_world init =
     (Inl (WebhookError ''down''),
      \<lparr>daily_trades = [],
       trace = [GetClock, WebhookSend closed_text green,
                WebhookSend (bot_error_text (WebhookError ''down'')) red]\<rparr>)"
proof -
  have a: "get_clock closed_mute_world (trace init) = Inr False"
    by (simp add: closed_mute_world_def closed_world_def)
  have b: "webhook_send closed_mute_world (trace init @ [GetClock]) closed_text green
             = Some (WebhookError ''down'')"
    by (simp add: closed_mute_world_def)
  show ?thesis
    unfolding run_closed_undelivered [OF a b]
    by (simp add: closed_mute_world_def init_def)
qed

text \<open>The plain script writes the same message as one log line and returns.\<close>

lemma plain_run_closed:
  assumes "get_clock w tr = Inr False"
  shows "plain_run w tr = (Inr (), tr @ [GetClock, Log INFO (Text ''Market is closed'')])"
  using assms
  by (simp add: plain_run_def plain_run_body_def plain_check_market_hours_def)


text \<open>
  C5. When the clock reports the market closed, \<open>run\<close> sends exactly one
  ``Market is closed'' message and neither fetches the account, nor submits an order, nor
  sends a trade alert or a daily summary, nor touches the trade list; with the message
  delivered it returns normally, having done nothing else.
\<close>

theorem run_market_closed:
  assumes "get_clock w (trace s) = Inr False"
  shows "length (filter is_market_closed (new_events s (snd (run w s)))) = 1 \<and>
         \<not> list_ex is_account_fetch (new_events s (snd (run w s))) \<and>
         \<not> list_ex is_submit (new_events s (snd (run w s))) \<and>
         \<not> list_ex is_trade_alert (new_events s (snd (run w s))) \<and>
         \<not> list_ex is_list_append (new_events s (snd (run w s))) \<and>
         \<not> list_ex is_summary_send (new_events s (snd (run w s))) \<and>
         daily_trades (snd (run w s)) = daily_trades s \<and>
         (webhook_send w (trace s @ [GetClock]) closed_text green = None \<longrightarrow>
            run w s =
              (Inr (), s\<lparr>trace := trace s @ [GetClock, WebhookSend closed_text green]\<rparr>))"
proof (cases "webhook_send w (trace s @ [GetClock]) closed_text green")
  case None
  show ?thesis
    by (simp add: run_closed_delivered [OF assms None] new_events_def closed_text_def)
next
  case (Some e)
  show ?thesis
  proof (cases "webhook_send w (trace s @ [GetClock, WebhookSend closed_text green])
                  (bot_error_text e) red")
    case logged: None
    have "run w s =
            (Inl e, s\<lparr>trace := trace s @
               [GetClock, WebhookSend closed_text green, WebhookSend (bot_error_text e) red,
                Log ERROR (Text (''Error in trading bot: '' @ str_exn e))]\<rparr>)"
      using run_closed_undelivered [OF assms Some] logged by simp
    then show ?thesis
      using Some by (simp add: new_events_def closed_text_def bot_error_text_def)
  next
    case (Some e')
    have "run w s =
            (Inl e', s\<lparr>trace := trace s @
               [GetClock, WebhookSend closed_text green, WebhookSend (bot_error_text e) red]\<rparr>)"
      using run_closed_undelivered [OF assms \<open>webhook_send w (trace s @ [GetClock]) closed_text green = Some e\<close>]
        Some by simp
    then show ?thesis
      using \<open>webhook_send w (trace s @ [GetClock]) closed_text green = Some e\<close>
      by (simp add: new_events_def closed_text_def bot_error_text_def)
  qed
qed

text \<open>The closed market of \<open>closed_world\<close>.\<close>

theorem run_market_closed_witness:
  "get_clock closed_world (trace init) = Inr False \<and>
   webhook_send closed_world (trace init @ [GetClock]) closed_text green = None \<and>
   run closed_world init =
     (Inr (), \<lparr>daily_trades = [], trace = [GetClock, WebhookSend (Text ''Market is closed'') green]\<rparr>)"
proof -
  have a: "get_clock closed_world (trace init) = Inr False"
    by (simp add: closed_world_def)
  have b: "webhook_send closed_world (trace init @ [GetClock]) closed_text green = None"
    by (simp add: closed_world_def ok_world_def)
  from run_market_closed [OF a] b
  have "run closed_world init =
     (Inr (), init\<lparr>trace := trace init @ [GetClock, WebhookSend closed_text green]\<rparr>)"
    by blast
  with a b show ?thesis by (simp add: init_def closed_text_def)
qed

section \<open>The trade list only grows\<close>

text \<open>
  C8. The trade list starts empty. \<open>check_market_hours\<close>, \<open>send_daily_summary\<close> and
  \<open>run\<close> leave it unchanged; \<open>execute_trade\<close> appends the returned record at its end
  when it succeeds and leaves it unchanged when it fails. No operation removes or rewrites
  a record.
\<close>

theorem daily_trades_append_only:
  "daily_trades init = [] \<and>
   daily_trades (snd (check_market_hours w s)) = daily_trades s \<and>
   append_only (daily_trades s) (daily_trades (snd (execute_trade w symb qty side pr s))) \<and>
   (case fst (execute_trade w symb qty side pr s) of
      Inr t \<Rightarrow> daily_trades (snd (execute_trade w symb qty side pr s)) = daily_trades s @ [t]
    | Inl e \<Rightarrow> daily_trades (snd (execute_trade w symb qty side pr s)) = daily_trades s) \<and>
   daily_trades (snd (send_daily_summary w s)) = daily_trades s \<and>
   daily_trades (snd (run w s)) = daily_trades s"
proof -
  have c: "case fst (execute_trade w symb qty side pr s) of
      Inr t \<Rightarrow> daily_trades (snd (execute_trade w symb qty side pr s)) = daily_trades s @ [t]
    | Inl e \<Rightarrow> daily_trades (snd (execute_trade w symb qty side pr s)) = daily_trades s"
  proof (cases "fst (execute_trade w symb qty side pr s)")
    case (Inl e)
    then show ?thesis using execute_trade_failure [OF Inl] by simp
  next
    case (Inr t)
    then show ?thesis using execute_trade_success [OF Inr] by simp
  qed
  then have "append_only (daily_trades s)
               (daily_trades (snd (execute_trade w symb qty side pr s)))"
    by (auto simp: append_only_def split: sum.splits)
  with c show ?thesis by (simp add: check_market_hours_def)
qed

text \<open>A successful trade, a rejected one, and a run after a trade.\<close>

theorem daily_trades_append_only_witness:
  "daily_trades (snd (execute_trade ok_world ''AAPL'' 10 (ascii ''buy'') 50 init)) = [] @ [aapl_trade] \<and>
   daily_trades (snd (execute_trade reject_world ''AAPL'' 10 (ascii ''buy'') 50 init)) = [] \<and>
   daily_trades (snd (run ok_world after_trade)) = [aapl_trade]"
proof -
  have "fst (execute_trade ok_world ''AAPL'' 10 (ascii ''buy'') 50 init) = Inr aapl_trade"
    by (simp add: ok_world_execute)
  with daily_trades_append_only [of ok_world init "''AAPL''" 10 "ascii ''buy''" 50]
  have a: "daily_trades (snd (execute_trade ok_world ''AAPL'' 10 (ascii ''buy'') 50 init)) = [] @ [aapl_trade]"
    by simp
  have "submit_order reject_world (trace init) (market_order ''AAPL'' 10 (ascii ''buy''))
          = Some (BrokerageError ''rejected'')"
    by (simp add: reject_world_def)
  then have "\<exists>e. fst (execute_trade reject_world ''AAPL'' 10 (ascii ''buy'') 50 init) = Inl e"
    by (simp add: execute_trade_rejected)
  with daily_trades_append_only [of reject_world init "''AAPL''" 10 "ascii ''buy''" 50]
  have b: "daily_trades (snd (execute_trade reject_world ''AAPL'' 10 (ascii ''buy'') 50 init)) = []"
    by auto
  from daily_trades_append_only [of ok_world after_trade]
  have "daily_trades (snd (run ok_world after_trade)) = daily_trades after_trade"
    by blast
  with a b show ?thesis by (simp add: after_trade_def)
qed

text \<open>
  A quantity that does not convert to a float: the order is submitted, the record is not
  built, one error alert is sent and the list stays as it was.
\<close>

lemma execute_trade_overflow:
  "execute_trade ok_world ''AAPL'' (2 ^ 1024) (ascii ''buy'') 50 init =
     (Inl (OverflowError ''int too large to convert to float''),
      \<lparr>daily_trades = [],
       trace = [SubmitOrder (market_order ''AAPL'' (2 ^ 1024) (ascii ''buy'')),
                WebhookSend
                  (failure_text (OverflowError ''int too large to convert to float'')) red]\<rparr>)"
proof -
  have a: "submit_order ok_world (trace init)
             (market_order ''AAPL'' (2 ^ 1024) (ascii ''buy'')) = None"
    by (simp add: ok_world_def del: power_numeral)
  show ?thesis
    unfolding execute_trade_unbuilt [OF a huge_build]
    by (simp add: ok_world_def init_def del: power_numeral)
qed

end
